theory Spec2Isabelle
  imports Main
begin

section \<open>Data model\<close>

text \<open>
  The file \<^verbatim>\<open>internal/olm/operator/bundle/install.go\<close> composes a file-based
  catalog (a declarative config) for one bundle image. It either merges the rendered
  bundle into the rendered index image, or builds a minimal catalog around the bundle.

  A Go function returning \<^verbatim>\<open>(*T, error)\<close> is a value of \<open>error + T option\<close>:
  \<open>Inl\<close> is a non-nil error, \<open>Inr None\<close> is the pair \<^verbatim>\<open>(nil, nil)\<close> and
  \<open>Inr (Some x)\<close> a non-nil pointer with a nil error. A run-time panic (a nil pointer
  dereference, an index out of range) is the error value \<open>Panic\<close>; an ordinary Go error
  is \<open>Error\<close> with its message.
\<close>

datatype error = Error string | Panic string

definition nilDereference :: error where
  "nilDereference = Panic ''invalid memory address or nil pointer dereference''"

definition indexOutOfRange :: error where
  "indexOutOfRange = Panic ''index out of range [0] with length 0''"

type_synonym labels = "string \<rightharpoonup> string"

text \<open>Reading a Go \<^verbatim>\<open>map[string]string\<close> at a key: the zero value when the key is absent.\<close>

definition labelValue :: "labels \<Rightarrow> string \<Rightarrow> string" where
  "labelValue m k = (case m k of None \<Rightarrow> [] | Some v \<Rightarrow> v)"

text \<open>
  Modelled from the spec: the record types of the snapshot (\<^verbatim>\<open>declcfg.Package\<close>,
  \<^verbatim>\<open>Channel\<close>, \<^verbatim>\<open>ChannelEntry\<close>, \<^verbatim>\<open>Bundle\<close>, \<^verbatim>\<open>Meta\<close> and
  \<^verbatim>\<open>DeclarativeConfig\<close>), which the operator-registry library declares and the
  source file only uses. The data model gives a package an identity (its name), a default
  channel name and descriptive metadata; a channel its package and an ordered sequence of
  entries, each naming a bundle with optional replaces and skips relations; a bundle a
  name, a package reference, a property list and related objects; an other record a
  schema and an opaque payload. The fields of \<^verbatim>\<open>Channel\<close> and the field
  \<^verbatim>\<open>Name\<close> of \<^verbatim>\<open>ChannelEntry\<close> are the ones the source file writes (lines
  155--158 and 312--317).

  Go's \<^verbatim>\<open>reflect.DeepEqual\<close> on two packages compares them field by field, which is
  equality of the record.
\<close>

record ChannelEntry =
  ce_Name :: string
  ce_Replaces :: string
  ce_Skips :: "string list"
  ce_SkipRange :: string

record Channel =
  ch_Schema :: string
  ch_Name :: string
  ch_Package :: string
  ch_Entries :: "ChannelEntry list"

record Package =
  pkg_Name :: string
  pkg_DefaultChannel :: string
  pkg_Description :: string

record Bundle =
  b_Schema :: string
  b_Name :: string
  b_Package :: string
  b_Image :: string
  b_Properties :: "(string \<times> string) list"
  b_RelatedImages :: "(string \<times> string) list"

record Meta =
  m_Schema :: string
  m_Package :: string
  m_Blob :: string

record DeclarativeConfig =
  Packages :: "Package list"
  Channels :: "Channel list"
  Bundles :: "Bundle list"
  Others :: "Meta list"

section \<open>Collaborators\<close>

text \<open>
  An \<^verbatim>\<open>io.Reader\<close> that is read once to its end: \<open>None\<close> is the nil reader,
  \<open>Some (Inr s)\<close> yields the text \<open>s\<close> and \<open>Some (Inl e)\<close> fails with \<open>e\<close>.
\<close>

type_synonym reader = "(error + string) option"

record InstallModeT =
  im_Type :: string
  im_TargetNamespaces :: "string list"

text \<open>The cluster service version of the bundle: the two fields that are read.\<close>

record CSV =
  csv_Name :: string
  csv_InstallModes :: "(string \<times> bool) list"

text \<open>
  What the file takes from other packages: four label keys, the default index image, and
  the functions it calls (validation of the add mode, bundle loading, the install-mode
  check, path joining, image labels, rendering one image reference, package
  initialisation, conversion to the structural model and its validation, JSON encoding,
  and two helpers for the installer's fields). They are parameters of the model. \<open>'m\<close>
  is the type of the structural model. A collaborator that succeeds returns a value (a
  non-nil pointer); \<^verbatim>\<open>WriteJSON\<close> gives the bytes written to the buffer and the
  error it returned.
\<close>

record 'm Collaborators =
  DefaultIndexImage :: string
  DbLocationLabel :: string
  ConfigsLocationLabel :: string
  ChannelsLabel :: string
  PackageLabel :: string
  BundleAddMode_Validate :: "string \<Rightarrow> error option"
  LoadBundle :: "string \<Rightarrow> bool \<Rightarrow> bool \<Rightarrow> error + (labels \<times> CSV)"
  CheckCompatibility :: "InstallModeT \<Rightarrow> CSV \<Rightarrow> string \<Rightarrow> error option"
  filepath_Join :: "string list \<Rightarrow> string"
  GetImageLabels :: "string \<Rightarrow> error + labels"
  Render_Run :: "string \<Rightarrow> error + DeclarativeConfig"
  Init_Run :: "string \<Rightarrow> string \<Rightarrow> reader \<Rightarrow> error + Package"
  ConvertToModel :: "DeclarativeConfig \<Rightarrow> error + 'm"
  Model_Validate :: "'m \<Rightarrow> error option"
  WriteJSON :: "DeclarativeConfig \<Rightarrow> string \<times> error option"
  CatalogNameForPackage :: "string \<Rightarrow> string"
  GetSupportedInstallModes :: "(string \<times> bool) list \<Rightarrow> string list"

section \<open>The merge path: \<^verbatim>\<open>addBundleToIndexImage\<close>\<close>

text \<open>
  Lines 238--246: the loop over the packages of the index image. It stops at the first
  package deeply equal to the bundle's first package and clears the flag.
\<close>

fun scanPackages :: "Package list \<Rightarrow> Package \<Rightarrow> bool \<Rightarrow> bool" where
  "scanPackages [] p0 packageNotPresent = packageNotPresent"
| "scanPackages (packageName # rest) p0 packageNotPresent =
     (if packageName = p0 then False else scanPackages rest p0 packageNotPresent)"

definition packageNotPresent :: "DeclarativeConfig \<Rightarrow> DeclarativeConfig \<Rightarrow> bool" where
  "packageNotPresent imageDeclConfig bundleDeclConfig =
     (case Packages bundleDeclConfig of
        [] \<Rightarrow> True
      | p0 # _ \<Rightarrow> scanPackages (Packages imageDeclConfig) p0 True)"

text \<open>
  Lines 232--262, the merge step, after both renders have succeeded. The test of line
  232 compares a length with zero and returns \<^verbatim>\<open>(nil, err)\<close> with \<^verbatim>\<open>err\<close>
  nil. Line 249 reads \<^verbatim>\<open>bundleDeclConfig.Packages[0]\<close> without a guard of its own.
\<close>

definition addBundleToIndexImage_merge ::
  "DeclarativeConfig \<Rightarrow> DeclarativeConfig \<Rightarrow> error + DeclarativeConfig option" where
  "addBundleToIndexImage_merge imageDeclConfig bundleDeclConfig =
     (if int (length (Bundles bundleDeclConfig)) < 0 then Inr None
      else if packageNotPresent imageDeclConfig bundleDeclConfig
              \<and> length (Bundles bundleDeclConfig) > 0
              \<and> length (Channels bundleDeclConfig) > 0
      then
        (case Packages bundleDeclConfig of
           [] \<Rightarrow> Inl indexOutOfRange
         | p0 # _ \<Rightarrow>
             let c1 = imageDeclConfig\<lparr>Packages := Packages imageDeclConfig @ [p0]\<rparr>;
                 c2 = (case Bundles bundleDeclConfig of
                         [] \<Rightarrow> c1
                       | b0 # _ \<Rightarrow> c1\<lparr>Bundles := Bundles c1 @ [b0]\<rparr>);
                 c3 = (case Channels bundleDeclConfig of
                         [] \<Rightarrow> c2
                       | ch0 # _ \<Rightarrow> c2\<lparr>Channels := Channels c2 @ [ch0]\<rparr>);
                 c4 = (case Others bundleDeclConfig of
                         [] \<Rightarrow> c3
                       | o0 # _ \<Rightarrow> c3\<lparr>Others := Others c3 @ [o0]\<rparr>)
             in Inr (Some c4))
      else Inr (Some imageDeclConfig))"

text \<open>Lines 208--263: render the index image, render the bundle image, merge.\<close>

definition addBundleToIndexImage ::
  "'m Collaborators \<Rightarrow> string \<Rightarrow> string \<Rightarrow> error + DeclarativeConfig option" where
  "addBundleToIndexImage env indexImage bundleImage =
     (case Render_Run env indexImage of
        Inl err \<Rightarrow> Inl err
      | Inr imageDeclConfig \<Rightarrow>
          (case Render_Run env bundleImage of
             Inl err \<Rightarrow> Inl err
           | Inr bundleDeclConfig \<Rightarrow>
               addBundleToIndexImage_merge imageDeclConfig bundleDeclConfig))"

section \<open>The minimal-build path: \<^verbatim>\<open>createFBC\<close>\<close>

record FBCContext =
  f_BundleImage :: string
  f_Package :: string
  f_DefaultChannel :: string
  f_FBCName :: string
  f_FBCDirPath :: string
  f_FBCDirName :: string
  f_ChannelSchema :: string
  f_ChannelName :: string
  f_ChannelEntries :: "ChannelEntry list"
  f_DescriptionReader :: reader

text \<open>
  Lines 266--322. The test of line 285 is the same comparison with zero as in the merge
  path; the test of line 290 then requires exactly one bundle.
\<close>

definition createFBC ::
  "'m Collaborators \<Rightarrow> FBCContext \<Rightarrow> error + DeclarativeConfig option" where
  "createFBC env f =
     (case Render_Run env (f_BundleImage f) of
        Inl err \<Rightarrow> Inl err
      | Inr declcfg \<Rightarrow>
          if int (length (Bundles declcfg)) < 0 then Inr None
          else if length (Bundles declcfg) = 1 then
            (let declcfg1 = declcfg\<lparr>Bundles := [Bundles declcfg ! 0]\<rparr> in
             case Init_Run env (f_Package f) (f_ChannelName f) (f_DescriptionReader f) of
               Inl err \<Rightarrow> Inl err
             | Inr declcfgpackage \<Rightarrow>
                 let declcfg2 = declcfg1\<lparr>Packages := [declcfgpackage]\<rparr>;
                     channel = \<lparr>ch_Schema = f_ChannelSchema f, ch_Name = f_ChannelName f,
                                ch_Package = f_Package f, ch_Entries = f_ChannelEntries f\<rparr>
                 in Inr (Some (declcfg2\<lparr>Channels := [channel]\<rparr>)))
          else Inl (Error ''error in expected length of bundles''))"

section \<open>The pipeline: \<^verbatim>\<open>setup\<close>\<close>

text \<open>
  \<^verbatim>\<open>strings.Split(s, sep)\<close> for a separator of one character: the pieces of \<open>s\<close>
  between the separators, never an empty list.
\<close>

fun strings_Split :: "string \<Rightarrow> char \<Rightarrow> string list" where
  "strings_Split [] sep = [[]]"
| "strings_Split (c # cs) sep =
     (if c = sep then [] # strings_Split cs sep
      else (case strings_Split cs sep of
              [] \<Rightarrow> [[c]]
            | piece # pieces \<Rightarrow> (c # piece) # pieces))"

text \<open>
  The receiver of \<^verbatim>\<open>setup\<close>, with the fields of the two embedded structs it reads and
  writes: \<open>oi_\<close> for the \<^verbatim>\<open>OperatorInstaller\<close>, \<open>icc_\<close> for the fields that only
  the \<^verbatim>\<open>IndexImageCatalogCreator\<close> has under that name.
\<close>

record Install =
  BundleImage :: string
  IndexImage :: string
  InstallMode :: InstallModeT
  BundleAddMode :: string
  SkipTLS :: bool
  SkipTLSVerify :: bool
  UseHTTP :: bool
  cfg_Namespace :: string
  oi_PackageName :: string
  oi_CatalogSourceName :: string
  oi_StartingCSV :: string
  oi_SupportedInstallModes :: "string list"
  oi_Channel :: string
  icc_PackageName :: string
  icc_BundleImage :: string
  icc_FBCcontent :: string
  icc_FBCdir :: string
  icc_FBCfile :: string

text \<open>Lines 116--117: the working directory and file of the catalog.\<close>

definition setup_directoryName :: "'m Collaborators \<Rightarrow> CSV \<Rightarrow> string" where
  "setup_directoryName env csv =
     filepath_Join env [''/tmp'', (strings_Split (csv_Name csv) (CHR ''.'') ! 0) @ ''-index'']"

definition setup_fileName :: "'m Collaborators \<Rightarrow> CSV \<Rightarrow> string" where
  "setup_fileName env csv = filepath_Join env [setup_directoryName env csv, ''testFBC'']"

text \<open>Lines 337--351. \<^verbatim>\<open>*declcfg\<close> on a nil pointer panics.\<close>

definition validateFBC :: "'m Collaborators \<Rightarrow> DeclarativeConfig option \<Rightarrow> error option" where
  "validateFBC env declcfg =
     (case declcfg of
        None \<Rightarrow> Some nilDereference
      | Some d \<Rightarrow>
          (case ConvertToModel env d of
             Inl err \<Rightarrow> Some err
           | Inr FBCmodel \<Rightarrow>
               (case Model_Validate env FBCmodel of
                  Some err \<Rightarrow> Some err
                | None \<Rightarrow> None)))"

text \<open>Lines 325--334.\<close>

definition stringifyDecConfig ::
  "'m Collaborators \<Rightarrow> DeclarativeConfig option \<Rightarrow> string \<times> error option" where
  "stringifyDecConfig env declcfg =
     (case declcfg of
        None \<Rightarrow> ([], Some nilDereference)
      | Some d \<Rightarrow>
          (case WriteJSON env d of
             (buf, Some err) \<Rightarrow> ([], Some err)
           | (buf, None) \<Rightarrow> (buf, None)))"

text \<open>Lines 142--160: the context of the minimal build.\<close>

definition setup_FBCContext ::
  "'m Collaborators \<Rightarrow> Install \<Rightarrow> labels \<Rightarrow> CSV \<Rightarrow> string \<Rightarrow> string \<Rightarrow> FBCContext" where
  "setup_FBCContext env i labels csv directoryName fileName =
     (let bundleChannel = strings_Split (labelValue labels (ChannelsLabel env)) (CHR '','') ! 0
      in \<lparr>f_BundleImage = BundleImage i,
          f_Package = labelValue labels (PackageLabel env),
          f_DefaultChannel = bundleChannel,
          f_FBCName = fileName,
          f_FBCDirPath = [],
          f_FBCDirName = directoryName,
          f_ChannelSchema = ''olm.channel'',
          f_ChannelName = bundleChannel,
          f_ChannelEntries =
            [\<lparr>ce_Name = csv_Name csv, ce_Replaces = [], ce_Skips = [], ce_SkipRange = []\<rparr>],
          f_DescriptionReader = None\<rparr>)"

text \<open>
  Lines 124--170: the value of the variable \<^verbatim>\<open>declcfg\<close> when line 172 is reached
  (\<open>None\<close> is the nil pointer it starts with), or the error returned before.
\<close>

definition setup_declcfg ::
  "'m Collaborators \<Rightarrow> Install \<Rightarrow> labels \<Rightarrow> CSV \<Rightarrow> string \<Rightarrow> string \<Rightarrow> labels
     \<Rightarrow> error + DeclarativeConfig option" where
  "setup_declcfg env i labels csv directoryName fileName catalogLabels =
     (let hasDBLabel = (DbLocationLabel env \<in> dom catalogLabels);
          hasFBCLabel = (ConfigsLocationLabel env \<in> dom catalogLabels)
      in case (if (hasDBLabel \<or> hasFBCLabel) \<and> IndexImage i \<noteq> DefaultIndexImage env
               then addBundleToIndexImage env (IndexImage i) (BundleImage i)
               else Inr None) of
           Inl err \<Rightarrow> Inl err
         | Inr declcfg \<Rightarrow>
             if IndexImage i = DefaultIndexImage env
             then createFBC env
                    (setup_FBCContext env i labels csv directoryName fileName)
             else Inr declcfg)"

text \<open>
  Lines 172--204: validation, encoding, the test for an empty text, and the fields handed
  to the installer. The result is the receiver and the error returned (\<open>None\<close> is nil).
\<close>

definition setup_finish ::
  "'m Collaborators \<Rightarrow> Install \<Rightarrow> labels \<Rightarrow> CSV \<Rightarrow> string \<Rightarrow> string
     \<Rightarrow> DeclarativeConfig option \<Rightarrow> Install \<times> error option" where
  "setup_finish env i labels csv directoryName fileName declcfg =
     (case validateFBC env declcfg of
        Some err \<Rightarrow> (i, Some err)
      | None \<Rightarrow>
          (case stringifyDecConfig env declcfg of
             (content, Some err) \<Rightarrow> (i, Some err)
           | (content, None) \<Rightarrow>
               if content = []
               then (i, Some (Error ''File-Based Catalog contents cannot be empty''))
               else
                 (i\<lparr>oi_PackageName := labelValue labels (PackageLabel env),
                    oi_CatalogSourceName :=
                      CatalogNameForPackage env (labelValue labels (PackageLabel env)),
                    oi_StartingCSV := csv_Name csv,
                    oi_SupportedInstallModes :=
                      GetSupportedInstallModes env (csv_InstallModes csv),
                    oi_Channel :=
                      strings_Split (labelValue labels (ChannelsLabel env)) (CHR '','') ! 0,
                    icc_PackageName := labelValue labels (PackageLabel env),
                    icc_BundleImage := BundleImage i,
                    icc_FBCcontent := content,
                    icc_FBCdir := directoryName,
                    icc_FBCfile := fileName\<rparr>,
                  None)))"

text \<open>Line 121: \<^verbatim>\<open>fmt.Errorf("get index image labels: %v", err)\<close>.\<close>

definition labelsError :: "error \<Rightarrow> error" where
  "labelsError err =
     (case err of
        Error msg \<Rightarrow> Error (''get index image labels: '' @ msg)
      | Panic msg \<Rightarrow> Panic msg)"

text \<open>Lines 90--205: the method \<^verbatim>\<open>setup\<close> of \<^verbatim>\<open>Install\<close>.\<close>

definition Install_setup :: "'m Collaborators \<Rightarrow> Install \<Rightarrow> Install \<times> error option" where
  "Install_setup env i0 =
     (case (if BundleAddMode i0 \<noteq> [] then BundleAddMode_Validate env (BundleAddMode i0)
            else None) of
        Some err \<Rightarrow> (i0, Some err)
      | None \<Rightarrow>
          let i = (if SkipTLS i0 then i0\<lparr>UseHTTP := True\<rparr> else i0) in
          (case LoadBundle env (BundleImage i) (SkipTLSVerify i) (UseHTTP i) of
             Inl err \<Rightarrow> (i, Some err)
           | Inr (labels, csv) \<Rightarrow>
               (case CheckCompatibility env (InstallMode i) csv (cfg_Namespace i) of
                  Some err \<Rightarrow> (i, Some err)
                | None \<Rightarrow>
                    let directoryName = setup_directoryName env csv;
                        fileName = setup_fileName env csv
                    in (case GetImageLabels env (IndexImage i) of
                          Inl err \<Rightarrow> (i, Some (labelsError err))
                        | Inr catalogLabels \<Rightarrow>
                            (case setup_declcfg env i labels csv directoryName fileName
                                    catalogLabels of
                               Inl err \<Rightarrow> (i, Some err)
                             | Inr declcfg \<Rightarrow>
                                 setup_finish env i labels csv directoryName fileName
                                   declcfg)))))"

section \<open>Example inputs\<close>

text \<open>
  Concrete snapshots, a concrete set of collaborators and a concrete receiver, on which
  the theorems below are instantiated. The example renderer knows a bundle image with one
  package, channel, bundle and other record, variants of it without a channel, without a
  bundle and with two bundles, an index image holding a package of the same name with
  another default channel, and an empty index image. The example initialiser builds the
  package from the name, the default channel and the description it is given. The
  example validator accepts every snapshot and the example encoder writes one piece of
  text per record.
\<close>

definition pkgFoo :: Package where
  "pkgFoo = \<lparr>pkg_Name = ''foo'', pkg_DefaultChannel = ''stable'', pkg_Description = []\<rparr>"

definition pkgFooAlpha :: Package where
  "pkgFooAlpha = \<lparr>pkg_Name = ''foo'', pkg_DefaultChannel = ''alpha'', pkg_Description = []\<rparr>"

definition entryFoo :: ChannelEntry where
  "entryFoo = \<lparr>ce_Name = ''foo.v1.0.0'', ce_Replaces = [], ce_Skips = [], ce_SkipRange = []\<rparr>"

definition chanStable :: Channel where
  "chanStable = \<lparr>ch_Schema = ''olm.channel'', ch_Name = ''stable'', ch_Package = ''foo'',
     ch_Entries = [entryFoo]\<rparr>"

definition bundleFoo :: Bundle where
  "bundleFoo = \<lparr>b_Schema = ''olm.bundle'', b_Name = ''foo.v1.0.0'', b_Package = ''foo'',
     b_Image = ''example/foo-bundle:v1.0.0'', b_Properties = [], b_RelatedImages = []\<rparr>"

definition bundleFoo2 :: Bundle where
  "bundleFoo2 = \<lparr>b_Schema = ''olm.bundle'', b_Name = ''foo.v2.0.0'', b_Package = ''foo'',
     b_Image = ''example/foo-bundle:v2.0.0'', b_Properties = [], b_RelatedImages = []\<rparr>"

definition metaFoo :: Meta where
  "metaFoo = \<lparr>m_Schema = ''custom'', m_Package = ''foo'', m_Blob = ''{}''\<rparr>"

definition emptyIndex :: DeclarativeConfig where
  "emptyIndex = \<lparr>Packages = [], Channels = [], Bundles = [], Others = []\<rparr>"

definition alphaIndex :: DeclarativeConfig where
  "alphaIndex = \<lparr>Packages = [pkgFooAlpha], Channels = [], Bundles = [], Others = []\<rparr>"

definition bundleRender :: DeclarativeConfig where
  "bundleRender =
     \<lparr>Packages = [pkgFoo], Channels = [chanStable], Bundles = [bundleFoo], Others = [metaFoo]\<rparr>"

definition mergedIndex :: DeclarativeConfig where
  "mergedIndex =
     \<lparr>Packages = [pkgFooAlpha, pkgFoo], Channels = [chanStable], Bundles = [bundleFoo],
      Others = [metaFoo]\<rparr>"

definition exampleLabels :: labels where
  "exampleLabels = [''bundle.package.v1'' \<mapsto> ''foo'', ''bundle.channels.v1'' \<mapsto> ''stable'']"

definition exampleCSV :: CSV where
  "exampleCSV = \<lparr>csv_Name = ''foo.v1.0.0'', csv_InstallModes = [(''AllNamespaces'', True)]\<rparr>"

definition exampleRender :: "string \<Rightarrow> error + DeclarativeConfig" where
  "exampleRender ref =
     (if ref = ''example/foo-bundle:v1.0.0'' then Inr bundleRender
      else if ref = ''example/no-channel:v1.0.0'' then Inr (bundleRender\<lparr>Channels := []\<rparr>)
      else if ref = ''example/no-bundle:v1.0.0'' then Inr (bundleRender\<lparr>Bundles := []\<rparr>)
      else if ref = ''example/two-bundles:v1.0.0''
        then Inr (bundleRender\<lparr>Bundles := [bundleFoo, bundleFoo2]\<rparr>)
      else if ref = ''example/index:latest'' then Inr alphaIndex
      else if ref = ''example/empty-index:latest'' then Inr emptyIndex
      else Inl (Error ''image not found''))"

definition exampleWriteJSON :: "DeclarativeConfig \<Rightarrow> string \<times> error option" where
  "exampleWriteJSON d =
     (concat (map (\<lambda>p. ''{package: '' @ pkg_Name p @ ''}'') (Packages d))
        @ concat (map (\<lambda>c. ''{channel: '' @ ch_Name c @ ''}'') (Channels d))
        @ concat (map (\<lambda>b. ''{bundle: '' @ b_Name b @ ''}'') (Bundles d))
        @ concat (map (\<lambda>m. ''{other: '' @ m_Schema m @ ''}'') (Others d)),
      None)"

definition exampleEnv :: "unit Collaborators" where
  "exampleEnv =
     \<lparr>DefaultIndexImage = ''opm:latest'',
      DbLocationLabel = ''index.database.v1'',
      ConfigsLocationLabel = ''index.configs.v1'',
      ChannelsLabel = ''bundle.channels.v1'',
      PackageLabel = ''bundle.package.v1'',
      BundleAddMode_Validate = (\<lambda>mode. None),
      LoadBundle = (\<lambda>image skipTLSVerify useHTTP. Inr (exampleLabels, exampleCSV)),
      CheckCompatibility = (\<lambda>mode csv namespace. None),
      filepath_Join =
        (\<lambda>elems. case elems of
                    [] \<Rightarrow> []
                  | e # es \<Rightarrow> e @ concat (map (\<lambda>x. CHR ''/'' # x) es)),
      GetImageLabels =
        (\<lambda>ref. if ref = ''example/plain:latest'' then Inr Map.empty
               else Inr [''index.configs.v1'' \<mapsto> ''/configs'']),
      Render_Run = exampleRender,
      Init_Run =
        (\<lambda>package defaultChannel descriptionReader.
           case descriptionReader of
             None \<Rightarrow>
               Inr \<lparr>pkg_Name = package, pkg_DefaultChannel = defaultChannel,
                    pkg_Description = []\<rparr>
           | Some (Inl err) \<Rightarrow> Inl err
           | Some (Inr descriptionData) \<Rightarrow>
               Inr \<lparr>pkg_Name = package, pkg_DefaultChannel = defaultChannel,
                    pkg_Description = descriptionData\<rparr>),
      ConvertToModel = (\<lambda>d. Inr ()),
      Model_Validate = (\<lambda>m. None),
      WriteJSON = exampleWriteJSON,
      CatalogNameForPackage = (\<lambda>name. name @ ''-catalog''),
      GetSupportedInstallModes = (\<lambda>modes. map fst (filter snd modes))\<rparr>"

definition exampleInstall :: "string \<Rightarrow> string \<Rightarrow> Install" where
  "exampleInstall bundleImage indexImage =
     \<lparr>BundleImage = bundleImage, IndexImage = indexImage,
      InstallMode = \<lparr>im_Type = [], im_TargetNamespaces = []\<rparr>,
      BundleAddMode = [], SkipTLS = False, SkipTLSVerify = False, UseHTTP = False,
      cfg_Namespace = ''default'',
      oi_PackageName = [], oi_CatalogSourceName = [], oi_StartingCSV = [],
      oi_SupportedInstallModes = [], oi_Channel = [],
      icc_PackageName = [], icc_BundleImage = [], icc_FBCcontent = [], icc_FBCdir = [],
      icc_FBCfile = []\<rparr>"

section \<open>Properties of the merge step\<close>

lemma scanPackages_True: "scanPackages ps p0 True = (p0 \<notin> set ps)"
  by (induction ps) auto

lemma packageNotPresent_iff:
  "packageNotPresent tgt src =
     (case Packages src of [] \<Rightarrow> True | p0 # _ \<Rightarrow> p0 \<notin> set (Packages tgt))"
  by (simp add: packageNotPresent_def scanPackages_True split: list.split)

text \<open>The branch of line 232 is dead: the merge never returns \<^verbatim>\<open>(nil, nil)\<close>.\<close>

lemma merge_not_nil: "addBundleToIndexImage_merge tgt src \<noteq> Inr None"
  by (simp add: addBundleToIndexImage_merge_def Let_def split: list.split)

text \<open>The merge has no error of its own; the only failure is the panic of line 249.\<close>

lemma merge_error_is_panic:
  "addBundleToIndexImage_merge tgt src = Inl err \<Longrightarrow> err = indexOutOfRange"
  by (simp add: addBundleToIndexImage_merge_def Let_def split: list.splits if_splits)

lemma merge_no_packages:
  assumes "Packages src = []"
  shows "addBundleToIndexImage_merge tgt src =
           (if Bundles src \<noteq> [] \<and> Channels src \<noteq> [] then Inl indexOutOfRange
            else Inr (Some tgt))"
  using assms by (simp add: addBundleToIndexImage_merge_def packageNotPresent_def)

lemma exampleEnv_simps:
  "DefaultIndexImage exampleEnv = ''opm:latest''"
  "DbLocationLabel exampleEnv = ''index.database.v1''"
  "ConfigsLocationLabel exampleEnv = ''index.configs.v1''"
  "ChannelsLabel exampleEnv = ''bundle.channels.v1''"
  "PackageLabel exampleEnv = ''bundle.package.v1''"
  "Render_Run exampleEnv = exampleRender"
  by (simp_all add: exampleEnv_def)

lemma exampleRender_simps:
  "exampleRender ''example/foo-bundle:v1.0.0'' = Inr bundleRender"
  "exampleRender ''example/no-channel:v1.0.0'' = Inr (bundleRender\<lparr>Channels := []\<rparr>)"
  "exampleRender ''example/no-bundle:v1.0.0'' = Inr (bundleRender\<lparr>Bundles := []\<rparr>)"
  "exampleRender ''example/two-bundles:v1.0.0''
     = Inr (bundleRender\<lparr>Bundles := [bundleFoo, bundleFoo2]\<rparr>)"
  "exampleRender ''example/index:latest'' = Inr alphaIndex"
  "exampleRender ''example/empty-index:latest'' = Inr emptyIndex"
  "exampleRender ''opm:latest'' = Inl (Error ''image not found'')"
  by (simp_all add: exampleRender_def)

lemma pkgFoo_neq: "pkgFooAlpha \<noteq> pkgFoo" "pkgFoo \<noteq> pkgFooAlpha"
  by (simp_all add: pkgFoo_def pkgFooAlpha_def)

text \<open>
  C1 (merge path). The claim asks that a bundle render with no bundle, or with two or
  more, aborts the composition with the unexpected-bundle-count error. On the merge path
  it does not: with the example index image, a bundle render without any bundle returns
  the index snapshot unchanged and without an error, and a render with two bundles
  appends the first of them and returns without an error.
\<close>

theorem addBundleToIndexImage_ignores_bundle_count:
  "addBundleToIndexImage exampleEnv ''example/index:latest'' ''example/no-bundle:v1.0.0''
     = Inr (Some alphaIndex)
   \<and> addBundleToIndexImage exampleEnv ''example/index:latest''
         ''example/two-bundles:v1.0.0''
     = Inr (Some mergedIndex)"
  by (simp add: addBundleToIndexImage_def exampleEnv_simps exampleRender_simps
      addBundleToIndexImage_merge_def
      packageNotPresent_def bundleRender_def alphaIndex_def mergedIndex_def pkgFoo_neq)

text \<open>
  C3. The claim asks that a source without packages leaves the target unchanged and
  never fails, whatever its bundles and channels. With no package but a bundle and a
  channel, the merge reads \<^verbatim>\<open>Packages[0]\<close> of an empty sequence and panics.
\<close>

theorem merge_empty_packages_panics:
  "addBundleToIndexImage_merge alphaIndex (bundleRender\<lparr>Packages := []\<rparr>)
     = Inl indexOutOfRange"
  by (simp add: addBundleToIndexImage_merge_def packageNotPresent_def bundleRender_def)

text \<open>
  C4. When the source has a first package, it is judged present exactly when some
  package of the target is equal to it as a whole record. So when a target package has
  the same name but no target package is equal to the source's (and the source has a
  bundle and a channel), the merge appends the source's package and the result holds at
  least two package records of that name.
\<close>

theorem merge_presence_is_deep_equality:
  "(Packages src = p0 # ps \<longrightarrow> (\<not> packageNotPresent tgt src) = (p0 \<in> set (Packages tgt)))
   \<and> (Packages src = p0 # ps \<and> Bundles src \<noteq> [] \<and> Channels src \<noteq> []
        \<and> q \<in> set (Packages tgt) \<and> pkg_Name q = pkg_Name p0 \<and> p0 \<notin> set (Packages tgt)
      \<longrightarrow> (\<exists>res. addBundleToIndexImage_merge tgt src = Inr (Some res)
                 \<and> Packages res = Packages tgt @ [p0]
                 \<and> 2 \<le> length (filter (\<lambda>p. pkg_Name p = pkg_Name p0) (Packages res))))"
proof (intro conjI impI)
  assume "Packages src = p0 # ps"
  then show "(\<not> packageNotPresent tgt src) = (p0 \<in> set (Packages tgt))"
    by (simp add: packageNotPresent_iff)
next
  assume a: "Packages src = p0 # ps \<and> Bundles src \<noteq> [] \<and> Channels src \<noteq> []
        \<and> q \<in> set (Packages tgt) \<and> pkg_Name q = pkg_Name p0 \<and> p0 \<notin> set (Packages tgt)"
  then have np: "packageNotPresent tgt src"
    by (simp add: packageNotPresent_iff)
  from a have "filter (\<lambda>p. pkg_Name p = pkg_Name p0) (Packages tgt) \<noteq> []"
    by (auto simp add: filter_empty_conv)
  then have "1 \<le> length (filter (\<lambda>p. pkg_Name p = pkg_Name p0) (Packages tgt))"
    by (cases "filter (\<lambda>p. pkg_Name p = pkg_Name p0) (Packages tgt)") simp_all
  with a np show "\<exists>res. addBundleToIndexImage_merge tgt src = Inr (Some res)
                 \<and> Packages res = Packages tgt @ [p0]
                 \<and> 2 \<le> length (filter (\<lambda>p. pkg_Name p = pkg_Name p0) (Packages res))"
    by (simp add: addBundleToIndexImage_merge_def Let_def split: list.split)
qed

theorem merge_presence_is_deep_equality_witness:
  "Packages bundleRender = [pkgFoo] \<and> pkgFoo \<notin> set (Packages alphaIndex)
   \<and> packageNotPresent alphaIndex bundleRender
   \<and> pkgFooAlpha \<in> set (Packages alphaIndex)
   \<and> pkg_Name pkgFooAlpha = pkg_Name pkgFoo \<and> pkgFooAlpha \<noteq> pkgFoo
   \<and> (\<exists>res. addBundleToIndexImage_merge alphaIndex bundleRender = Inr (Some res)
         \<and> Packages res = [pkgFooAlpha, pkgFoo]
         \<and> 2 \<le> length (filter (\<lambda>p. pkg_Name p = ''foo'') (Packages res)))"
  using merge_presence_is_deep_equality
    [of bundleRender pkgFoo "[]" alphaIndex pkgFooAlpha]
  by (simp add: bundleRender_def alphaIndex_def pkgFoo_def pkgFooAlpha_def)

text \<open>
  C6. When the source's package is judged absent and the source has at least one
  package, bundle and channel, the merge succeeds and its result is the target with the
  source's first package, first bundle and first channel appended, one each, and with
  the source's first other record appended when there is one.
\<close>

theorem merge_appends_first_records:
  assumes "packageNotPresent tgt src"
    and "Packages src = p0 # ps" and "Bundles src = b0 # bs" and "Channels src = c0 # cs"
  shows "addBundleToIndexImage_merge tgt src =
           Inr (Some \<lparr>Packages = Packages tgt @ [p0],
                      Channels = Channels tgt @ [c0],
                      Bundles = Bundles tgt @ [b0],
                      Others = (case Others src of [] \<Rightarrow> Others tgt
                                | o0 # _ \<Rightarrow> Others tgt @ [o0])\<rparr>)"
  using assms by (simp add: addBundleToIndexImage_merge_def Let_def split: list.split)

theorem merge_appends_first_records_witness:
  "packageNotPresent alphaIndex bundleRender
   \<and> addBundleToIndexImage_merge alphaIndex bundleRender = Inr (Some mergedIndex)"
proof -
  have np: "packageNotPresent alphaIndex bundleRender"
    by (simp add: packageNotPresent_def alphaIndex_def bundleRender_def pkgFoo_neq)
  show ?thesis
    using np merge_appends_first_records [OF np, of pkgFoo "[]" bundleFoo "[]" chanStable "[]"]
    by (simp add: bundleRender_def alphaIndex_def mergedIndex_def)
qed

text \<open>
  C7. Merging the same source a second time, into the result of a first merge that
  succeeded, returns that result unchanged. In particular, when the first merge appended
  the package (one more package than before), the second merge judges the package
  present, and the numbers of packages, bundles and channels stay as they are.
\<close>

theorem merge_twice_unchanged:
  assumes "addBundleToIndexImage_merge tgt src = Inr (Some t1)"
  shows "addBundleToIndexImage_merge t1 src = Inr (Some t1)
         \<and> (packageNotPresent tgt src \<and> Packages src \<noteq> [] \<and> Bundles src \<noteq> []
              \<and> Channels src \<noteq> [] \<longrightarrow>
            length (Packages t1) = length (Packages tgt) + 1 \<and> \<not> packageNotPresent t1 src)"
  using assms
  by (auto simp add: addBundleToIndexImage_merge_def packageNotPresent_iff Let_def
      split: list.splits if_splits)

theorem merge_twice_unchanged_witness:
  "addBundleToIndexImage_merge alphaIndex bundleRender = Inr (Some mergedIndex)
   \<and> addBundleToIndexImage_merge mergedIndex bundleRender = Inr (Some mergedIndex)
   \<and> length (Packages mergedIndex) = length (Packages alphaIndex) + 1
   \<and> \<not> packageNotPresent mergedIndex bundleRender"
proof -
  have first: "addBundleToIndexImage_merge alphaIndex bundleRender = Inr (Some mergedIndex)"
    by (simp add: addBundleToIndexImage_merge_def packageNotPresent_def bundleRender_def
        alphaIndex_def mergedIndex_def pkgFoo_neq)
  have np: "packageNotPresent alphaIndex bundleRender"
    by (simp add: packageNotPresent_def alphaIndex_def bundleRender_def pkgFoo_neq)
  show ?thesis
    using first np merge_twice_unchanged [OF first]
    by (simp add: bundleRender_def)
qed

text \<open>
  C8. When the source has at least one package and at least one bundle but no channel,
  the merge returns the target unchanged and raises no error: the bundle is dropped.
\<close>

theorem merge_without_channels_drops_bundle:
  assumes "Packages src \<noteq> []" and "Bundles src \<noteq> []" and "Channels src = []"
  shows "addBundleToIndexImage_merge tgt src = Inr (Some tgt)"
  using assms by (simp add: addBundleToIndexImage_merge_def)

theorem merge_without_channels_drops_bundle_witness:
  "Packages (bundleRender\<lparr>Channels := []\<rparr>) \<noteq> []
   \<and> Bundles (bundleRender\<lparr>Channels := []\<rparr>) \<noteq> []
   \<and> Channels (bundleRender\<lparr>Channels := []\<rparr>) = []
   \<and> addBundleToIndexImage_merge alphaIndex (bundleRender\<lparr>Channels := []\<rparr>)
       = Inr (Some alphaIndex)"
  using merge_without_channels_drops_bundle [of "bundleRender\<lparr>Channels := []\<rparr>" alphaIndex]
  by (simp add: bundleRender_def)

section \<open>Properties of the minimal build and of the pipeline\<close>

lemma strings_Split_not_Nil: "strings_Split s sep \<noteq> []"
  by (induction s) (auto split: list.split)

text \<open>Index 0 of the pieces is in range, and is the text before the first separator.\<close>

lemma strings_Split_first: "strings_Split s sep ! 0 = takeWhile (\<lambda>c. c \<noteq> sep) s"
  by (induction s) (auto split: list.split simp add: strings_Split_not_Nil)

text \<open>The branch of line 285 is dead as well.\<close>

lemma createFBC_not_nil: "createFBC env f \<noteq> Inr None"
  by (simp add: createFBC_def Let_def split: sum.split)

text \<open>
  The minimal build keeps the single-bundle rule: a render with any other number of
  bundles is refused, and a snapshot it returns holds one bundle.
\<close>

lemma createFBC_bundle_count:
  assumes "Render_Run env (f_BundleImage f) = Inr d" and "length (Bundles d) \<noteq> 1"
  shows "createFBC env f = Inl (Error ''error in expected length of bundles'')"
  using assms by (simp add: createFBC_def)

lemma createFBC_one_bundle:
  assumes "createFBC env f = Inr (Some cfg)"
  shows "length (Bundles cfg) = 1"
  using assms
  by (auto simp add: createFBC_def Let_def split: sum.splits if_splits)

lemma exampleLabels_simps:
  "labelValue exampleLabels ''bundle.package.v1'' = ''foo''"
  "labelValue exampleLabels ''bundle.channels.v1'' = ''stable''"
  by (simp_all add: labelValue_def exampleLabels_def)

lemma exampleInstall_simps:
  "BundleImage (exampleInstall b x) = b"
  "IndexImage (exampleInstall b x) = x"
  "BundleAddMode (exampleInstall b x) = []"
  "(if SkipTLS (exampleInstall b x) then (exampleInstall b x)\<lparr>UseHTTP := True\<rparr>
    else exampleInstall b x) = exampleInstall b x"
  by (simp_all add: exampleInstall_def)

lemma setup_finish_success:
  assumes "snd (setup_finish env i labels csv directoryName fileName declcfg) = None"
  shows "validateFBC env declcfg = None
         \<and> stringifyDecConfig env declcfg
             = (icc_FBCcontent (fst (setup_finish env i labels csv directoryName fileName declcfg)),
                None)
         \<and> icc_FBCcontent (fst (setup_finish env i labels csv directoryName fileName declcfg))
             \<noteq> []"
  using assms
  by (auto simp add: setup_finish_def split: option.splits prod.splits if_splits)

lemma setup_success_content:
  assumes "snd (Install_setup env i0) = None"
  shows "icc_FBCcontent (fst (Install_setup env i0)) \<noteq> []"
proof -
  from assms obtain i labels csv directoryName fileName declcfg where
    eq: "Install_setup env i0 = setup_finish env i labels csv directoryName fileName declcfg"
    by (auto simp add: Install_setup_def Let_def
        split: option.splits sum.splits prod.splits if_splits)
  with assms show ?thesis
    using setup_finish_success [of env i labels csv directoryName fileName declcfg] by simp
qed

text \<open>Two runs of the whole pipeline on the example collaborators.\<close>

lemma example_run_minimal:
  "Install_setup exampleEnv (exampleInstall ''example/foo-bundle:v1.0.0'' ''opm:latest'')
     = ((exampleInstall ''example/foo-bundle:v1.0.0'' ''opm:latest'')
          \<lparr>oi_PackageName := ''foo'', oi_CatalogSourceName := ''foo-catalog'',
           oi_StartingCSV := ''foo.v1.0.0'', oi_SupportedInstallModes := [''AllNamespaces''],
           oi_Channel := ''stable'', icc_PackageName := ''foo'',
           icc_BundleImage := ''example/foo-bundle:v1.0.0'',
           icc_FBCcontent :=
             ''{package: foo}{channel: stable}{bundle: foo.v1.0.0}{other: custom}'',
           icc_FBCdir := ''/tmp/foo-index'', icc_FBCfile := ''/tmp/foo-index/testFBC''\<rparr>,
        None)"
  by (simp add: Install_setup_def setup_finish_def setup_declcfg_def setup_FBCContext_def
      setup_directoryName_def setup_fileName_def createFBC_def validateFBC_def
      stringifyDecConfig_def exampleWriteJSON_def exampleEnv_def exampleInstall_def
      exampleLabels_def labelValue_def exampleRender_def exampleCSV_def bundleRender_def
      pkgFoo_def chanStable_def entryFoo_def bundleFoo_def metaFoo_def Let_def)

lemma example_run_empty:
  "Install_setup exampleEnv
     (exampleInstall ''example/no-channel:v1.0.0'' ''example/empty-index:latest'')
     = (exampleInstall ''example/no-channel:v1.0.0'' ''example/empty-index:latest'',
        Some (Error ''File-Based Catalog contents cannot be empty''))"
  by (simp add: Install_setup_def setup_finish_def setup_declcfg_def
      setup_directoryName_def setup_fileName_def addBundleToIndexImage_def
      addBundleToIndexImage_merge_def validateFBC_def stringifyDecConfig_def
      exampleWriteJSON_def exampleEnv_def exampleInstall_def exampleRender_def
      exampleCSV_def bundleRender_def emptyIndex_def Let_def)

text \<open>
  C2, as the claim states it, fails: with a configs-location label on the catalog image
  and the built-in default as index reference, the composition does not take the merge
  path (which would fail here, the index image not being renderable) but the minimal
  build, and returns the minimal catalog.
\<close>

theorem setup_declcfg_label_with_default_index:
  "ConfigsLocationLabel exampleEnv \<in> dom [''index.configs.v1'' \<mapsto> ''/configs'']
   \<and> IndexImage (exampleInstall ''example/foo-bundle:v1.0.0'' ''opm:latest'')
       = DefaultIndexImage exampleEnv
   \<and> setup_declcfg exampleEnv (exampleInstall ''example/foo-bundle:v1.0.0'' ''opm:latest'')
        exampleLabels exampleCSV ''/tmp/foo-index'' ''/tmp/foo-index/testFBC''
        [''index.configs.v1'' \<mapsto> ''/configs'']
      = Inr (Some bundleRender)
   \<and> createFBC exampleEnv
        (setup_FBCContext exampleEnv (exampleInstall ''example/foo-bundle:v1.0.0'' ''opm:latest'')
           exampleLabels exampleCSV ''/tmp/foo-index'' ''/tmp/foo-index/testFBC'')
      = Inr (Some bundleRender)
   \<and> addBundleToIndexImage exampleEnv ''opm:latest'' ''example/foo-bundle:v1.0.0''
      = Inl (Error ''image not found'')
   \<and> setup_declcfg exampleEnv (exampleInstall ''example/foo-bundle:v1.0.0'' ''opm:latest'')
        exampleLabels exampleCSV ''/tmp/foo-index'' ''/tmp/foo-index/testFBC''
        [''index.configs.v1'' \<mapsto> ''/configs'']
      \<noteq> addBundleToIndexImage exampleEnv ''opm:latest'' ''example/foo-bundle:v1.0.0''"
proof -
  have run: "setup_declcfg exampleEnv
               (exampleInstall ''example/foo-bundle:v1.0.0'' ''opm:latest'')
               exampleLabels exampleCSV ''/tmp/foo-index'' ''/tmp/foo-index/testFBC''
               [''index.configs.v1'' \<mapsto> ''/configs'']
             = Inr (Some bundleRender)"
    by (simp add: setup_declcfg_def setup_FBCContext_def createFBC_def exampleEnv_def
        exampleLabels_simps exampleInstall_simps exampleRender_simps exampleCSV_def
        bundleRender_def pkgFoo_def chanStable_def entryFoo_def Let_def)
  have build: "createFBC exampleEnv
        (setup_FBCContext exampleEnv (exampleInstall ''example/foo-bundle:v1.0.0'' ''opm:latest'')
           exampleLabels exampleCSV ''/tmp/foo-index'' ''/tmp/foo-index/testFBC'')
      = Inr (Some bundleRender)"
    by (simp add: setup_FBCContext_def createFBC_def exampleEnv_def
        exampleLabels_simps exampleInstall_simps exampleRender_simps exampleCSV_def
        bundleRender_def pkgFoo_def chanStable_def entryFoo_def Let_def)
  have merge: "addBundleToIndexImage exampleEnv ''opm:latest'' ''example/foo-bundle:v1.0.0''
      = Inl (Error ''image not found'')"
    by (simp add: addBundleToIndexImage_def exampleEnv_simps exampleRender_simps)
  show ?thesis
    unfolding run build merge
    by (simp add: exampleEnv_simps exampleInstall_simps)
qed

text \<open>
  C2, amended. When the database-location label or the configs-location label is
  present on the catalog image and the index reference is not the built-in default, the
  snapshot of the composition is the result of the merge path (render the index image
  and merge the bundle into it). When both labels are absent and the index reference is
  the built-in default, it is the result of the minimal build.
\<close>

theorem setup_declcfg_routing:
  "((DbLocationLabel env \<in> dom catalogLabels \<or> ConfigsLocationLabel env \<in> dom catalogLabels)
      \<and> IndexImage i \<noteq> DefaultIndexImage env
     \<longrightarrow> setup_declcfg env i labels csv directoryName fileName catalogLabels
          = addBundleToIndexImage env (IndexImage i) (BundleImage i))
   \<and> (DbLocationLabel env \<notin> dom catalogLabels \<and> ConfigsLocationLabel env \<notin> dom catalogLabels
      \<and> IndexImage i = DefaultIndexImage env
     \<longrightarrow> setup_declcfg env i labels csv directoryName fileName catalogLabels
          = createFBC env (setup_FBCContext env i labels csv directoryName fileName))"
  by (simp add: setup_declcfg_def Let_def split: sum.split)

theorem setup_declcfg_routing_witness:
  "(ConfigsLocationLabel exampleEnv \<in> dom [''index.configs.v1'' \<mapsto> ''/configs'']
    \<and> IndexImage (exampleInstall ''example/foo-bundle:v1.0.0'' ''example/index:latest'')
        \<noteq> DefaultIndexImage exampleEnv
    \<and> setup_declcfg exampleEnv
         (exampleInstall ''example/foo-bundle:v1.0.0'' ''example/index:latest'')
         exampleLabels exampleCSV ''/tmp/foo-index'' ''/tmp/foo-index/testFBC''
         [''index.configs.v1'' \<mapsto> ''/configs'']
       = addBundleToIndexImage exampleEnv ''example/index:latest''
           ''example/foo-bundle:v1.0.0'')
   \<and> (DbLocationLabel exampleEnv \<notin> dom (Map.empty :: labels)
      \<and> ConfigsLocationLabel exampleEnv \<notin> dom (Map.empty :: labels)
      \<and> IndexImage (exampleInstall ''example/foo-bundle:v1.0.0'' ''opm:latest'')
          = DefaultIndexImage exampleEnv
      \<and> setup_declcfg exampleEnv (exampleInstall ''example/foo-bundle:v1.0.0'' ''opm:latest'')
          exampleLabels exampleCSV ''/tmp/foo-index'' ''/tmp/foo-index/testFBC'' Map.empty
        = createFBC exampleEnv
            (setup_FBCContext exampleEnv
               (exampleInstall ''example/foo-bundle:v1.0.0'' ''opm:latest'')
               exampleLabels exampleCSV ''/tmp/foo-index'' ''/tmp/foo-index/testFBC''))"
  using setup_declcfg_routing [of exampleEnv "[''index.configs.v1'' \<mapsto> ''/configs'']"
      "exampleInstall ''example/foo-bundle:v1.0.0'' ''example/index:latest''"
      exampleLabels exampleCSV "''/tmp/foo-index''" "''/tmp/foo-index/testFBC''"]
    setup_declcfg_routing [of exampleEnv "Map.empty"
      "exampleInstall ''example/foo-bundle:v1.0.0'' ''opm:latest''"
      exampleLabels exampleCSV "''/tmp/foo-index''" "''/tmp/foo-index/testFBC''"]
  by (simp add: exampleEnv_simps exampleInstall_simps)

text \<open>
  C5. When the steps before the classification succeed, the catalog image carries
  neither the database-location nor the configs-location label, and the index reference
  is not the built-in default, then neither path runs: the snapshot variable is still
  nil and no error has been returned. The pipeline goes on to the validation step with
  that nil snapshot, where dereferencing it panics; no classification error is returned.
\<close>

theorem setup_validates_nil_snapshot:
  assumes "BundleAddMode i0 = [] \<or> BundleAddMode_Validate env (BundleAddMode i0) = None"
    and "i = (if SkipTLS i0 then i0\<lparr>UseHTTP := True\<rparr> else i0)"
    and "LoadBundle env (BundleImage i) (SkipTLSVerify i) (UseHTTP i) = Inr (labels, csv)"
    and "CheckCompatibility env (InstallMode i) csv (cfg_Namespace i) = None"
    and "GetImageLabels env (IndexImage i) = Inr catalogLabels"
    and "DbLocationLabel env \<notin> dom catalogLabels"
    and "ConfigsLocationLabel env \<notin> dom catalogLabels"
    and "IndexImage i \<noteq> DefaultIndexImage env"
  shows "setup_declcfg env i labels csv directoryName fileName catalogLabels = Inr None
         \<and> Install_setup env i0
             = setup_finish env i labels csv (setup_directoryName env csv)
                 (setup_fileName env csv) None
         \<and> validateFBC env None = Some nilDereference
         \<and> Install_setup env i0 = (i, Some nilDereference)"
proof -
  have none: "\<And>dn fn. setup_declcfg env i labels csv dn fn catalogLabels = Inr None"
    using assms(6-8) by (simp add: setup_declcfg_def)
  have pre: "(if BundleAddMode i0 \<noteq> [] then BundleAddMode_Validate env (BundleAddMode i0)
              else None) = None"
    using assms(1) by auto
  have run: "Install_setup env i0
             = setup_finish env i labels csv (setup_directoryName env csv)
                 (setup_fileName env csv) None"
    unfolding Install_setup_def pre Let_def assms(2)[symmetric]
    by (simp add: assms(3-5) none)
  have v: "validateFBC env None = Some nilDereference"
    by (simp add: validateFBC_def)
  from run v have "Install_setup env i0 = (i, Some nilDereference)"
    by (simp add: setup_finish_def)
  with none run v show ?thesis by simp
qed

theorem setup_validates_nil_snapshot_witness:
  "setup_declcfg exampleEnv (exampleInstall ''example/foo-bundle:v1.0.0'' ''example/plain:latest'')
     exampleLabels exampleCSV ''/tmp/foo-index'' ''/tmp/foo-index/testFBC'' Map.empty = Inr None
   \<and> validateFBC exampleEnv None = Some nilDereference
   \<and> Install_setup exampleEnv (exampleInstall ''example/foo-bundle:v1.0.0'' ''example/plain:latest'')
      = (exampleInstall ''example/foo-bundle:v1.0.0'' ''example/plain:latest'',
         Some nilDereference)"
proof -
  let ?i = "exampleInstall ''example/foo-bundle:v1.0.0'' ''example/plain:latest''"
  have "setup_declcfg exampleEnv ?i exampleLabels exampleCSV ''/tmp/foo-index''
            ''/tmp/foo-index/testFBC'' Map.empty = Inr None
         \<and> Install_setup exampleEnv ?i
               = setup_finish exampleEnv ?i exampleLabels exampleCSV
                   (setup_directoryName exampleEnv exampleCSV)
                   (setup_fileName exampleEnv exampleCSV) None
         \<and> validateFBC exampleEnv None = Some nilDereference
         \<and> Install_setup exampleEnv ?i = (?i, Some nilDereference)"
    by (rule setup_validates_nil_snapshot)
       (simp_all add: exampleInstall_simps exampleEnv_simps, simp_all add: exampleEnv_def)
  then show ?thesis by blast
qed

text \<open>
  C9. With the built-in default as index reference, bundle labels naming package
  \<open>foo\<close> and channel \<open>stable\<close>, a cluster service version named \<open>foo.v1.0.0\<close>, a
  render of the bundle image holding the one bundle \<open>foo.v1.0.0\<close>, and a package
  initialiser that returns a package of the requested name, the composition returns a
  snapshot with exactly one package, named \<open>foo\<close>; exactly one channel, named
  \<open>stable\<close>, of package \<open>foo\<close>, with schema \<open>olm.channel\<close> and the single entry
  \<open>foo.v1.0.0\<close> that replaces and skips nothing; and exactly one bundle, named
  \<open>foo.v1.0.0\<close>.
\<close>

theorem minimal_build_shape:
  assumes "IndexImage i = DefaultIndexImage env"
    and "labelValue labels (PackageLabel env) = ''foo''"
    and "labelValue labels (ChannelsLabel env) = ''stable''"
    and "csv_Name csv = ''foo.v1.0.0''"
    and "Render_Run env (BundleImage i) = Inr d"
    and "Bundles d = [b]"
    and "b_Name b = ''foo.v1.0.0''"
    and "Init_Run env ''foo'' ''stable'' None = Inr p"
    and "pkg_Name p = ''foo''"
  shows "\<exists>cfg. setup_declcfg env i labels csv directoryName fileName catalogLabels
                 = Inr (Some cfg)
          \<and> Packages cfg = [p] \<and> map pkg_Name (Packages cfg) = [''foo'']
          \<and> Channels cfg =
              [\<lparr>ch_Schema = ''olm.channel'', ch_Name = ''stable'', ch_Package = ''foo'',
                ch_Entries = [\<lparr>ce_Name = ''foo.v1.0.0'', ce_Replaces = [], ce_Skips = [],
                               ce_SkipRange = []\<rparr>]\<rparr>]
          \<and> Bundles cfg = [b] \<and> map b_Name (Bundles cfg) = [''foo.v1.0.0'']"
proof -
  have ch: "strings_Split ''stable'' (CHR '','') ! 0 = ''stable''"
    by (simp add: strings_Split_first)
  show ?thesis
    using assms
    by (simp add: setup_declcfg_def setup_FBCContext_def createFBC_def ch Let_def)
qed

theorem minimal_build_shape_witness:
  "\<exists>cfg. setup_declcfg exampleEnv (exampleInstall ''example/foo-bundle:v1.0.0'' ''opm:latest'')
            exampleLabels exampleCSV ''/tmp/foo-index'' ''/tmp/foo-index/testFBC'' Map.empty
          = Inr (Some cfg)
      \<and> Packages cfg = [pkgFoo] \<and> map pkg_Name (Packages cfg) = [''foo'']
      \<and> Channels cfg =
          [\<lparr>ch_Schema = ''olm.channel'', ch_Name = ''stable'', ch_Package = ''foo'',
            ch_Entries = [\<lparr>ce_Name = ''foo.v1.0.0'', ce_Replaces = [], ce_Skips = [],
                           ce_SkipRange = []\<rparr>]\<rparr>]
      \<and> Bundles cfg = [bundleFoo] \<and> map b_Name (Bundles cfg) = [''foo.v1.0.0'']"
  by (rule minimal_build_shape [where d = bundleRender])
     (simp_all add: exampleEnv_simps exampleInstall_simps exampleLabels_simps
        exampleRender_simps exampleCSV_def bundleRender_def bundleFoo_def pkgFoo_def,
      simp_all add: exampleEnv_def)

text \<open>
  C10, as the claim states it, fails in its first half: a snapshot that passed validation
  can be encoded to the empty text. On the merge path, the empty example index and a
  bundle render without a channel leave the empty snapshot; it passes validation, its
  encoding is the empty string without an error, and the pipeline ends with the error
  \<open>File-Based Catalog contents cannot be empty\<close>.
\<close>

theorem validated_snapshot_encodes_to_empty_text:
  "setup_declcfg exampleEnv
     (exampleInstall ''example/no-channel:v1.0.0'' ''example/empty-index:latest'')
     exampleLabels exampleCSV ''/tmp/foo-index'' ''/tmp/foo-index/testFBC''
     [''index.configs.v1'' \<mapsto> ''/configs'']
     = Inr (Some emptyIndex)
   \<and> validateFBC exampleEnv (Some emptyIndex) = None
   \<and> stringifyDecConfig exampleEnv (Some emptyIndex) = ([], None)
   \<and> Install_setup exampleEnv
        (exampleInstall ''example/no-channel:v1.0.0'' ''example/empty-index:latest'')
      = (exampleInstall ''example/no-channel:v1.0.0'' ''example/empty-index:latest'',
         Some (Error ''File-Based Catalog contents cannot be empty''))"
proof -
  have d: "setup_declcfg exampleEnv
     (exampleInstall ''example/no-channel:v1.0.0'' ''example/empty-index:latest'')
     exampleLabels exampleCSV ''/tmp/foo-index'' ''/tmp/foo-index/testFBC''
     [''index.configs.v1'' \<mapsto> ''/configs'']
     = Inr (Some emptyIndex)"
    by (simp add: setup_declcfg_def addBundleToIndexImage_def addBundleToIndexImage_merge_def
        exampleEnv_simps exampleInstall_simps exampleRender_simps bundleRender_def)
  have v: "validateFBC exampleEnv (Some emptyIndex) = None"
    by (simp add: validateFBC_def exampleEnv_def)
  have s: "stringifyDecConfig exampleEnv (Some emptyIndex) = ([], None)"
    by (simp add: stringifyDecConfig_def exampleEnv_def exampleWriteJSON_def emptyIndex_def)
  show ?thesis
    using d v s by (simp add: example_run_empty)
qed

text \<open>
  C10, amended. Encoding a snapshot that passed validation may yield the empty text;
  whenever it does, the pipeline fails with the error
  \<open>File-Based Catalog contents cannot be empty\<close>, the receiver is left as it was, and
  nothing is handed to the installer. So the text handed to the installer is never
  empty: when \<^verbatim>\<open>setup\<close> succeeds, the content it stores is not the empty string,
  the snapshot passed validation, and the encoder returned that content without an
  error.
\<close>

theorem setup_output_not_empty:
  "(snd (Install_setup env i0) = None \<longrightarrow> icc_FBCcontent (fst (Install_setup env i0)) \<noteq> [])
   \<and> (snd (setup_finish env i labels csv directoryName fileName declcfg) = None \<longrightarrow>
        validateFBC env declcfg = None
        \<and> stringifyDecConfig env declcfg
            = (icc_FBCcontent (fst (setup_finish env i labels csv directoryName fileName declcfg)),
               None)
        \<and> icc_FBCcontent (fst (setup_finish env i labels csv directoryName fileName declcfg))
            \<noteq> [])
   \<and> (validateFBC env declcfg = None \<and> stringifyDecConfig env declcfg = ([], None) \<longrightarrow>
        setup_finish env i labels csv directoryName fileName declcfg
          = (i, Some (Error ''File-Based Catalog contents cannot be empty'')))"
proof (intro conjI impI)
  assume "snd (Install_setup env i0) = None"
  then show "icc_FBCcontent (fst (Install_setup env i0)) \<noteq> []"
    by (rule setup_success_content)
next
  assume ok: "snd (setup_finish env i labels csv directoryName fileName declcfg) = None"
  from setup_finish_success [OF ok]
  show "validateFBC env declcfg = None"
    and "stringifyDecConfig env declcfg
            = (icc_FBCcontent (fst (setup_finish env i labels csv directoryName fileName declcfg)),
               None)"
    and "icc_FBCcontent (fst (setup_finish env i labels csv directoryName fileName declcfg))
            \<noteq> []"
    by simp_all
next
  assume "validateFBC env declcfg = None \<and> stringifyDecConfig env declcfg = ([], None)"
  then show "setup_finish env i labels csv directoryName fileName declcfg
          = (i, Some (Error ''File-Based Catalog contents cannot be empty''))"
    by (simp add: setup_finish_def)
qed

theorem setup_output_not_empty_witness:
  "snd (Install_setup exampleEnv (exampleInstall ''example/foo-bundle:v1.0.0'' ''opm:latest''))
     = None
   \<and> icc_FBCcontent
       (fst (Install_setup exampleEnv (exampleInstall ''example/foo-bundle:v1.0.0'' ''opm:latest'')))
     \<noteq> []
   \<and> validateFBC exampleEnv (Some emptyIndex) = None
   \<and> stringifyDecConfig exampleEnv (Some emptyIndex) = ([], None)
   \<and> setup_finish exampleEnv
        (exampleInstall ''example/no-channel:v1.0.0'' ''example/empty-index:latest'')
        exampleLabels exampleCSV ''/tmp/foo-index'' ''/tmp/foo-index/testFBC'' (Some emptyIndex)
      = (exampleInstall ''example/no-channel:v1.0.0'' ''example/empty-index:latest'',
         Some (Error ''File-Based Catalog contents cannot be empty''))"
proof -
  have ok: "snd (Install_setup exampleEnv
                   (exampleInstall ''example/foo-bundle:v1.0.0'' ''opm:latest'')) = None"
    by (simp add: example_run_minimal)
  have v: "validateFBC exampleEnv (Some emptyIndex) = None"
    by (simp add: validateFBC_def exampleEnv_def)
  have s: "stringifyDecConfig exampleEnv (Some emptyIndex) = ([], None)"
    by (simp add: stringifyDecConfig_def exampleEnv_def exampleWriteJSON_def emptyIndex_def)
  show ?thesis
    using ok v s
      setup_output_not_empty [of exampleEnv
        "exampleInstall ''example/foo-bundle:v1.0.0'' ''opm:latest''"
        "exampleInstall ''example/no-channel:v1.0.0'' ''example/empty-index:latest''"
        exampleLabels exampleCSV "''/tmp/foo-index''" "''/tmp/foo-index/testFBC''"
        "Some emptyIndex"]
    by simp
qed

end
